theory Spec2Isabelle
  imports Complex_Main "HOL-Library.Sublist" "HOL-Library.AList" "HOL-Library.Multiset"
begin

section \<open>Python strings\<close>

text \<open>
  A Python \<open>str\<close> is modelled as a \<open>string\<close>; a character stands for the code point
  of the same number (the range below 256). \<open>len\<close> is \<open>length\<close>, read as an \<open>int\<close>
  where the source compares it with a configured integer.
\<close>

definition py_isspace :: "char \<Rightarrow> bool" where
  "py_isspace c =
     (of_char c \<in> {9, 10, 11, 12, 13, 28, 29, 30, 31, 32, 133, 160 :: nat})"

text \<open>\<open>s.strip()\<close>\<close>

definition py_strip :: "string \<Rightarrow> string" where
  "py_strip s = rev (dropWhile py_isspace (rev (dropWhile py_isspace s)))"

text \<open>\<open>not text or not text.strip()\<close>\<close>

definition blank :: "string \<Rightarrow> bool" where
  "blank s = (s = [] \<or> py_strip s = [])"

definition py_lower_char :: "char \<Rightarrow> char" where
  "py_lower_char c =
     (let n = (of_char c :: nat)
      in if (65 \<le> n \<and> n \<le> 90) \<or> (192 \<le> n \<and> n \<le> 222 \<and> n \<noteq> 215)
         then char_of (n + 32) else c)"

definition py_lower :: "string \<Rightarrow> string" where
  "py_lower s = map py_lower_char s"

text \<open>\<open>s.split()\<close>: the maximal runs of characters that are not whitespace.\<close>

fun split_words :: "string \<Rightarrow> string \<Rightarrow> string list" where
  "split_words [] cur = (if cur = [] then [] else [cur])"
| "split_words (c # cs) cur =
     (if py_isspace c
      then (if cur = [] then split_words cs [] else cur # split_words cs [])
      else split_words cs (cur @ [c]))"

definition py_split_ws :: "string \<Rightarrow> string list" where
  "py_split_ws s = split_words s []"

text \<open>\<open>xs[:k]\<close> and \<open>xs[k:]\<close> for any integer \<open>k\<close>: a negative index counts from the end.\<close>

definition py_slice_to :: "'a list \<Rightarrow> int \<Rightarrow> 'a list" where
  "py_slice_to xs k =
     (if k < 0 then take (nat (int (length xs) + k)) xs else take (nat k) xs)"

definition py_slice_from :: "'a list \<Rightarrow> int \<Rightarrow> 'a list" where
  "py_slice_from xs k =
     (if k < 0 then drop (nat (int (length xs) + k)) xs else drop (nat k) xs)"

text \<open>\<open>k or default\<close> for an \<open>Optional[int]\<close>: \<open>None\<close> and \<open>0\<close> are falsy.\<close>

definition int_or :: "int option \<Rightarrow> int \<Rightarrow> int" where
  "int_or k d = (case k of None \<Rightarrow> d | Some v \<Rightarrow> if v = 0 then d else v)"

lemma py_strip_Nil [simp]: "py_strip [] = []"
  by (simp add: py_strip_def)

section \<open>Role-based access control (app/services/rbac.py)\<close>

text \<open>
  The metadata of a search result is a dictionary from field names to values, written as
  an association list and read with \<open>map_of\<close>; the fields read by the access filter
  hold lists of role names, the type \<open>can_access\<close> declares for its second argument.
\<close>

definition ALL_STAFF_ROLE :: string where
  "ALL_STAFF_ROLE = ''all_staff''"

record User =
  user_id :: string
  username :: string
  roles :: "string list"
  department :: "string option"

record RBACService =
  public_roles :: "string list"

text \<open>\<open>RBACService.__init__\<close>: \<open>public_roles or [ALL_STAFF_ROLE]\<close>; both \<open>None\<close> and the
  empty list are falsy and give the default.\<close>

definition RBACService_init :: "string list option \<Rightarrow> RBACService" where
  "RBACService_init arg =
     (case arg of
        None \<Rightarrow> \<lparr>public_roles = [ALL_STAFF_ROLE]\<rparr>
      | Some rs \<Rightarrow> if rs = [] then \<lparr>public_roles = [ALL_STAFF_ROLE]\<rparr>
                  else \<lparr>public_roles = rs\<rparr>)"

text \<open>The loop over \<open>self.public_roles\<close> of \<open>can_access\<close> (case 2).\<close>

fun has_public_role :: "string list \<Rightarrow> string list \<Rightarrow> bool" where
  "has_public_role [] document_roles = False"
| "has_public_role (public_role # rest) document_roles =
     (if public_role \<in> set document_roles then True
      else has_public_role rest document_roles)"

definition can_access :: "RBACService \<Rightarrow> User \<Rightarrow> string list \<Rightarrow> bool" where
  "can_access svc user document_roles =
     (if document_roles = [] then True
      else if has_public_role (public_roles svc) document_roles then True
      else if set (roles user) \<inter> set document_roles \<noteq> {} then True
      else False)"

text \<open>
  A result handed to \<open>filter_results\<close> either has a \<open>metadata\<close> attribute (a
  \<open>SearchResult\<close>), or is a dictionary (whose \<open>'metadata'\<close> key may be missing), or is
  any other object. The first component \<open>'a\<close> is the rest of the object, which the filter
  does not read.
\<close>

type_synonym role_metadata = "(string \<times> string list) list"

datatype 'a result =
    WithAttr 'a role_metadata
  | AsDict 'a "role_metadata option"
  | Opaque 'a

text \<open>\<open>d.get(key, [])\<close>\<close>

definition get_or_empty :: "role_metadata \<Rightarrow> string \<Rightarrow> string list" where
  "get_or_empty m k = (case map_of m k of None \<Rightarrow> [] | Some v \<Rightarrow> v)"

fun filter_results ::
  "RBACService \<Rightarrow> User \<Rightarrow> 'a result list \<Rightarrow> string \<Rightarrow> 'a result list" where
  "filter_results svc user [] roles_field = []"
| "filter_results svc user (WithAttr x m # results) roles_field =
     (if can_access svc user (get_or_empty m roles_field)
      then WithAttr x m # filter_results svc user results roles_field
      else filter_results svc user results roles_field)"
| "filter_results svc user (AsDict x d # results) roles_field =
     (if can_access svc user
           (get_or_empty (case d of None \<Rightarrow> [] | Some m \<Rightarrow> m) roles_field)
      then AsDict x d # filter_results svc user results roles_field
      else filter_results svc user results roles_field)"
| "filter_results svc user (Opaque x # results) roles_field =
     filter_results svc user results roles_field"

subsection \<open>Properties of the access check\<close>

lemma has_public_role_iff:
  "has_public_role ps ds \<longleftrightarrow> set ps \<inter> set ds \<noteq> {}"
  by (induction ps) auto

lemma can_access_iff:
  "can_access svc u ds \<longleftrightarrow>
     ds = [] \<or> set (public_roles svc) \<inter> set ds \<noteq> {} \<or> set (roles u) \<inter> set ds \<noteq> {}"
  by (simp add: can_access_def has_public_role_iff)

lemma filter_results_missing_field:
  "map_of m roles_field = None \<Longrightarrow>
   filter_results svc u [WithAttr x m] roles_field = [WithAttr x m]"
  by (simp add: can_access_def get_or_empty_def)

text \<open>
  C1. A hit whose metadata has no access-roles field is claimed to be excluded by
  \<open>filter_results\<close>. The code reads the field with the default \<open>[]\<close>, and the empty role
  list is public: for a user without any role, the default service and one hit whose
  metadata holds only an unrelated field, the hit is returned.
\<close>

theorem filter_results_missing_roles_kept:
  "filter_results (RBACService_init None)
     \<lparr>user_id = ''1'', username = ''alice'', roles = [], department = None\<rparr>
     [WithAttr ''hit-1'' [(''department'', [''HR''])]] ''access_roles''
   = [WithAttr ''hit-1'' [(''department'', [''HR''])]]"
  by (simp add: can_access_def get_or_empty_def)

text \<open>
  C5 as stated fails for a service configured with other public roles: \<open>all_staff\<close> is
  then an ordinary role (the repository's own test of custom public roles).
\<close>

theorem can_access_all_staff_custom_roles_denied:
  "can_access (RBACService_init (Some [''everyone'', ''public'']))
     \<lparr>user_id = ''1'', username = ''alice'', roles = [''employee''], department = None\<rparr>
     [''all_staff''] = False"
  by (simp add: can_access_def RBACService_init_def)

text \<open>
  C5, amended. For every user and service, an empty role list is accessible; the list
  \<open>["all_staff"]\<close> is accessible exactly when \<open>all_staff\<close> is a configured public role or
  a role of the user, which is the case for a service built with the default, with
  \<open>None\<close> or with the empty list; and a non-empty role list that holds no public role
  and no role of the user is denied.
\<close>

theorem can_access_cases:
  "can_access svc u [] \<and>
   (can_access svc u [ALL_STAFF_ROLE] \<longleftrightarrow>
      ALL_STAFF_ROLE \<in> set (public_roles svc) \<or> ALL_STAFF_ROLE \<in> set (roles u)) \<and>
   can_access (RBACService_init None) u [ALL_STAFF_ROLE] \<and>
   can_access (RBACService_init (Some [])) u [ALL_STAFF_ROLE] \<and>
   (ds \<noteq> [] \<longrightarrow> set (public_roles svc) \<inter> set ds = {} \<longrightarrow>
      set (roles u) \<inter> set ds = {} \<longrightarrow> \<not> can_access svc u ds)"
  by (auto simp: can_access_iff RBACService_init_def)

theorem can_access_cases_witness:
  "can_access \<lparr>public_roles = [''everyone'']\<rparr>
     \<lparr>user_id = ''2'', username = ''bob'', roles = [''employee''], department = None\<rparr> [] \<and>
   \<not> can_access \<lparr>public_roles = [''everyone'']\<rparr>
     \<lparr>user_id = ''2'', username = ''bob'', roles = [''employee''], department = None\<rparr>
     [ALL_STAFF_ROLE] \<and>
   can_access (RBACService_init None)
     \<lparr>user_id = ''2'', username = ''bob'', roles = [''employee''], department = None\<rparr>
     [ALL_STAFF_ROLE] \<and>
   [''hr'', ''executive''] \<noteq> ([] :: string list) \<and>
   \<not> can_access \<lparr>public_roles = [''everyone'']\<rparr>
     \<lparr>user_id = ''2'', username = ''bob'', roles = [''employee''], department = None\<rparr>
     [''hr'', ''executive'']"
  using can_access_cases [of "\<lparr>public_roles = [''everyone'']\<rparr>"
      "\<lparr>user_id = ''2'', username = ''bob'', roles = [''employee''], department = None\<rparr>"
      "[''hr'', ''executive'']"]
  by (simp add: ALL_STAFF_ROLE_def)

section \<open>Evaluation metrics (app/services/evaluation.py)\<close>

text \<open>
  \<open>EvaluationService.recall_at_k\<close>; \<open>self_k\<close> is the service's configured \<open>k\<close>. The
  quotient of the two counts is taken in the reals.
\<close>

definition recall_at_k :: "int \<Rightarrow> string list \<Rightarrow> string list \<Rightarrow> int option \<Rightarrow> real" where
  "recall_at_k self_k relevant_ids retrieved_ids k =
     (if relevant_ids = [] then 1
      else
        let k' = int_or k self_k;
            top_k_retrieved = set (py_slice_to retrieved_ids k');
            relevant_set = set relevant_ids;
            relevant_found = card (top_k_retrieved \<inter> relevant_set)
        in real relevant_found / real (card relevant_set))"

text \<open>The specification's Recall@k: the first \<open>k\<close> retrieved ids against the relevant
  ids, both as sets.\<close>

definition top_k_spec :: "nat \<Rightarrow> string list \<Rightarrow> string set" where
  "top_k_spec k retrieved = {retrieved ! i | i. i < k \<and> i < length retrieved}"

definition recall_spec :: "string list \<Rightarrow> string list \<Rightarrow> nat \<Rightarrow> real" where
  "recall_spec relevant retrieved k =
     real (card (top_k_spec k retrieved \<inter> set relevant)) / real (card (set relevant))"

lemma top_k_spec_take: "top_k_spec k xs = set (take k xs)"
proof -
  have "set (take k xs) = {take k xs ! i | i. i < length (take k xs)}"
    by (rule set_conv_nth)
  also have "\<dots> = {xs ! i | i. i < k \<and> i < length xs}"
    by (rule Collect_cong) (metis length_take min_less_iff_conj nth_take)
  finally show ?thesis by (simp add: top_k_spec_def)
qed

text \<open>
  C8. For every list of relevant ids, every list of retrieved ids and every positive
  \<open>k\<close>, \<open>recall_at_k\<close> is the specification's quotient when some id is relevant, and 1
  when none is, whatever was retrieved.
\<close>

theorem recall_at_k_correct:
  "0 < k \<Longrightarrow>
   recall_at_k self_k relevant retrieved (Some k) =
     (if relevant = [] then 1 else recall_spec relevant retrieved (nat k))"
  by (simp add: recall_at_k_def recall_spec_def top_k_spec_take int_or_def py_slice_to_def
      Let_def)

theorem recall_at_k_correct_witness:
  "(0::int) < 5 \<and>
   recall_at_k 5 [''a'', ''b''] [''a'', ''b'', ''c''] (Some 5) = 1 \<and>
   recall_spec [''a'', ''b''] [''a'', ''b'', ''c''] (nat 5) = 1 \<and>
   recall_at_k 5 [] [''x'', ''y''] (Some 5) = 1 \<and>
   recall_at_k 5 [''a'', ''b'', ''a''] [''c'', ''a'', ''b''] (Some 2) = 1 / 2"
proof -
  have a: "recall_at_k 5 [''a'', ''b''] [''a'', ''b'', ''c''] (Some 5) = 1"
    by (simp add: recall_at_k_def int_or_def py_slice_to_def)
  have b: "recall_at_k 5 [''a'', ''b'', ''a''] [''c'', ''a'', ''b''] (Some 2) = 1 / 2"
    by (simp add: recall_at_k_def int_or_def py_slice_to_def card_insert_if)
  from a b recall_at_k_correct [of 5 5 "[''a'', ''b'']" "[''a'', ''b'', ''c'']"]
    recall_at_k_correct [of 5 5 "[]" "[''x'', ''y'']"]
  show ?thesis by simp
qed

section \<open>Embedding and vector index ports (app/services/embedder.py, vector_store.py)\<close>

datatype error = ValueError string | PortFailure string

datatype pyval = PStr string | PInt int | PList "string list"

text \<open>
  A metadata dictionary keeps its keys in insertion order: an association list, written
  with \<open>AList.update\<close> (replace in place, or append) and read with \<open>map_of\<close>.
\<close>

type_synonym metadata = "(string \<times> pyval) list"
type_synonym vector = "real list"

text \<open>The dataclasses; fields that several classes share carry the class as a prefix
  (\<open>emb_text\<close> is \<open>EmbeddingResult.text\<close>, \<open>doc_text\<close> is \<open>VectorDocument.text\<close>,
  \<open>sr_text\<close> is \<open>SearchResult.text\<close>).\<close>

record EmbeddingResult =
  emb_text :: string
  emb_vector :: vector
  emb_model :: string
  emb_dimensions :: int

record VectorDocument =
  doc_id :: string
  doc_vector :: vector
  doc_text :: string
  doc_metadata :: metadata

record SearchResult =
  sr_id :: string
  sr_text :: string
  score :: real
  sr_metadata :: metadata

text \<open>
  The two protocols. A port call reads and changes the state \<open>'s\<close> of the outside world
  and returns a value or raises.
\<close>

record 's EmbedderProtocol =
  embed :: "string \<Rightarrow> 's \<Rightarrow> (error + EmbeddingResult) \<times> 's"
  embed_batch :: "string list \<Rightarrow> 's \<Rightarrow> (error + EmbeddingResult list) \<times> 's"

record 's VectorStore =
  upsert :: "VectorDocument list \<Rightarrow> 's \<Rightarrow> (error + int) \<times> 's"
  search :: "vector \<Rightarrow> int \<Rightarrow> metadata option \<Rightarrow> real option \<Rightarrow> 's
               \<Rightarrow> (error + SearchResult list) \<times> 's"

subsection \<open>MockEmbedder\<close>

text \<open>\<open>gen\<close> is \<open>_generate_vector\<close>, a function of the text (through SHA-256).\<close>

definition Mock_embed :: "int \<Rightarrow> (string \<Rightarrow> vector) \<Rightarrow> string \<Rightarrow> error + EmbeddingResult" where
  "Mock_embed dimensions gen text =
     (if blank text then Inl (ValueError ''Cannot embed empty text'')
      else Inr \<lparr>emb_text = text, emb_vector = gen text,
                emb_model = ''mock-embedder'', emb_dimensions = dimensions\<rparr>)"

fun Mock_embed_batch ::
  "int \<Rightarrow> (string \<Rightarrow> vector) \<Rightarrow> string list \<Rightarrow> error + EmbeddingResult list" where
  "Mock_embed_batch dimensions gen [] = Inr []"
| "Mock_embed_batch dimensions gen (text # texts) =
     (if py_strip text \<noteq> []
      then (case Mock_embed dimensions gen text of
              Inl e \<Rightarrow> Inl e
            | Inr r \<Rightarrow> (case Mock_embed_batch dimensions gen texts of
                          Inl e \<Rightarrow> Inl e
                        | Inr rs \<Rightarrow> Inr (r # rs)))
      else Mock_embed_batch dimensions gen texts)"

definition MockEmbedder :: "int \<Rightarrow> (string \<Rightarrow> vector) \<Rightarrow> 's EmbedderProtocol" where
  "MockEmbedder dimensions gen =
     \<lparr>embed = (\<lambda>text s. (Mock_embed dimensions gen text, s)),
      embed_batch = (\<lambda>texts s. (Mock_embed_batch dimensions gen texts, s))\<rparr>"

subsection \<open>OpenAIEmbedder\<close>

text \<open>
  \<open>api\<close> is the remote model: \<open>client.embeddings.create\<close> answers with one embedding
  per input text, in the order of the inputs. \<open>clean\<close> is
  \<open>t.replace("\n", " ").strip()\<close>.
\<close>

definition clean :: "string \<Rightarrow> string" where
  "clean t = py_strip (map (\<lambda>c. if c = CHR 0x0A then CHR '' '' else c) t)"

definition OpenAI_embed :: "string \<Rightarrow> (string \<Rightarrow> vector) \<Rightarrow> string \<Rightarrow> error + EmbeddingResult" where
  "OpenAI_embed model api text =
     (if blank text then Inl (ValueError ''Cannot embed empty text'')
      else let text' = clean text; v = api text'
           in Inr \<lparr>emb_text = text', emb_vector = v, emb_model = model,
                    emb_dimensions = int (length v)\<rparr>)"

definition OpenAI_embed_batch ::
  "string \<Rightarrow> (string \<Rightarrow> vector) \<Rightarrow> string list \<Rightarrow> error + EmbeddingResult list" where
  "OpenAI_embed_batch model api texts =
     (if texts = [] then Inr []
      else
        let cleaned_texts = map clean texts;
            valid_texts = filter (\<lambda>(i, t). t \<noteq> []) (enumerate 0 cleaned_texts)
        in if valid_texts = [] then Inl (ValueError ''All texts are empty'')
           else
             let texts_to_embed = map snd valid_texts;
                 response = map api texts_to_embed
             in Inr (map (\<lambda>(t, v). \<lparr>emb_text = t, emb_vector = v, emb_model = model,
                                      emb_dimensions = int (length v)\<rparr>)
                         (zip texts_to_embed response)))"

definition OpenAIEmbedder :: "string \<Rightarrow> (string \<Rightarrow> vector) \<Rightarrow> 's EmbedderProtocol" where
  "OpenAIEmbedder model api =
     \<lparr>embed = (\<lambda>text s. (OpenAI_embed model api text, s)),
      embed_batch = (\<lambda>texts s. (OpenAI_embed_batch model api texts, s))\<rparr>"

subsection \<open>MockVectorStore\<close>

text \<open>The store's state is its \<open>_documents\<close> dictionary.\<close>

type_synonym documents = "(string \<times> VectorDocument) list"

fun store_all :: "VectorDocument list \<Rightarrow> documents \<Rightarrow> documents" where
  "store_all [] ds = ds"
| "store_all (doc # docs) ds = store_all docs (AList.update (doc_id doc) doc ds)"

definition Mock_upsert :: "VectorDocument list \<Rightarrow> documents \<Rightarrow> (error + int) \<times> documents" where
  "Mock_upsert docs ds = (Inr (int (length docs)), store_all docs ds)"

definition cosine_similarity :: "vector \<Rightarrow> vector \<Rightarrow> real" where
  "cosine_similarity v1 v2 =
     (let dot_product = sum_list (map (\<lambda>(a, b). a * b) (zip v1 v2));
          norm1 = sqrt (sum_list (map (\<lambda>a. a * a) v1));
          norm2 = sqrt (sum_list (map (\<lambda>b. b * b) v2))
      in if norm1 = 0 \<or> norm2 = 0 then 0 else dot_product / (norm1 * norm2))"

text \<open>\<open>list.sort(key=..., reverse=True)\<close>: descending by the key, stable.\<close>

definition sort_desc :: "('a \<Rightarrow> real) \<Rightarrow> 'a list \<Rightarrow> 'a list" where
  "sort_desc key xs = sort_key (\<lambda>x. - key x) xs"

definition Mock_search ::
  "vector \<Rightarrow> int \<Rightarrow> metadata option \<Rightarrow> real option \<Rightarrow> documents
     \<Rightarrow> (error + SearchResult list) \<times> documents" where
  "Mock_search query_vector top_k filters score_threshold ds =
     (let passes = (\<lambda>doc.
            case filters of
              None \<Rightarrow> True
            | Some f \<Rightarrow> f = [] \<or>
                list_all (\<lambda>(k, v). map_of (doc_metadata doc) k = Some v) f);
          keeps = (\<lambda>sc.
            case score_threshold of
              None \<Rightarrow> True
            | Some t \<Rightarrow> t = 0 \<or> \<not> sc < t);
          scored_docs = filter (\<lambda>(doc, sc). keeps sc)
            (map (\<lambda>doc. (doc, cosine_similarity query_vector (doc_vector doc)))
               (filter passes (map snd ds)));
          top_docs = py_slice_to (sort_desc snd scored_docs) top_k
      in (Inr (map (\<lambda>(doc, sc). \<lparr>sr_id = doc_id doc, sr_text = doc_text doc, score = sc,
                                  sr_metadata = doc_metadata doc\<rparr>) top_docs), ds))"

definition MockVectorStore :: "documents VectorStore" where
  "MockVectorStore = \<lparr>upsert = Mock_upsert, search = Mock_search\<rparr>"

section \<open>Retriever (app/services/retriever.py)\<close>

text \<open>\<open>Chunk\<close> of app/services/chunker.py (\<open>chunk_text\<close> is \<open>Chunk.text\<close>).\<close>

record Chunk =
  chunk_text :: string
  chunk_index :: int
  chunk_metadata :: metadata

record RetrieverConfig =
  top_k :: int
  score_threshold :: "real option"
  use_reranking :: bool

record 's Retriever =
  config :: RetrieverConfig
  embedder :: "'s EmbedderProtocol"
  vector_store :: "'s VectorStore"

record RetrievalResult =
  rr_query :: string
  results :: "SearchResult list"
  total_results :: int
  filters_applied :: metadata

text \<open>
  The world a retriever acts on: the state behind its ports and the number of ids drawn
  from \<open>uuid.uuid4\<close> so far; \<open>uuid4 n\<close> is the \<open>n\<close>-th id drawn.
\<close>

record 's world =
  ports :: 's
  uuid_calls :: nat

text \<open>The loop of \<open>index_chunks\<close> over \<open>zip(chunks, embeddings)\<close>.\<close>

fun vector_docs ::
  "(nat \<Rightarrow> string) \<Rightarrow> string option \<Rightarrow> (Chunk \<times> EmbeddingResult) list \<Rightarrow> nat
     \<Rightarrow> VectorDocument list" where
  "vector_docs uuid4 document_id [] n = []"
| "vector_docs uuid4 document_id ((chunk, embedding) # rest) n =
     (let vector_id = uuid4 n;
          metadata = AList.update ''chunk_index'' (PInt (chunk_index chunk))
                       (chunk_metadata chunk);
          metadata' = (case document_id of
                         None \<Rightarrow> metadata
                       | Some d \<Rightarrow> if d = [] then metadata
                                  else AList.update ''document_id'' (PStr d) metadata)
      in \<lparr>doc_id = vector_id, doc_vector = emb_vector embedding,
           doc_text = chunk_text chunk, doc_metadata = metadata'\<rparr>
         # vector_docs uuid4 document_id rest (Suc n))"

definition index_chunks ::
  "'s Retriever \<Rightarrow> (nat \<Rightarrow> string) \<Rightarrow> Chunk list \<Rightarrow> string option \<Rightarrow> 's world
     \<Rightarrow> (error + int) \<times> 's world" where
  "index_chunks self uuid4 chunks document_id w =
     (if chunks = [] then (Inr 0, w)
      else
        let texts = map chunk_text chunks
        in case embed_batch (embedder self) texts (ports w) of
             (Inl e, s1) \<Rightarrow> (Inl e, w\<lparr>ports := s1\<rparr>)
           | (Inr embeddings, s1) \<Rightarrow>
               let pairs = zip chunks embeddings;
                   docs = vector_docs uuid4 document_id pairs (uuid_calls w);
                   w1 = w\<lparr>ports := s1, uuid_calls := uuid_calls w + length pairs\<rparr>
               in (case upsert (vector_store self) docs s1 of
                     (Inl e, s2) \<Rightarrow> (Inl e, w1\<lparr>ports := s2\<rparr>)
                   | (Inr stored, s2) \<Rightarrow> (Inr stored, w1\<lparr>ports := s2\<rparr>)))"

subsection \<open>Scores\<close>

text \<open>
  A score is a Python \<open>float\<close>, a binary64 number. A finite double is the real number it
  denotes, and doubles are compared as these reals (\<open>0.0\<close> and \<open>-0.0\<close> are equal in
  Python and one number here); the infinities and NaN are not modelled. The arithmetic
  of doubles rounds, so it is not the arithmetic of the reals: the operations that the
  re-ranking uses are the fields of \<open>float_ops\<close>, the product \<open>a * b\<close>, the sum \<open>a + b\<close>,
  the conversion of an \<open>int\<close> count to a \<open>float\<close> and the literal \<open>0.1\<close>. The literal
  \<open>1.0\<close> is the real 1.
\<close>

record float_ops =
  fmul :: "real \<Rightarrow> real \<Rightarrow> real"
  fadd :: "real \<Rightarrow> real \<Rightarrow> real"
  of_count :: "nat \<Rightarrow> real"
  tenth :: real

text \<open>
  The binary64 operations for results in the normal range (magnitude from \<open>2^-1022\<close> to
  below \<open>2^1024\<close>): the exact result is rounded to the nearest number with 53 significant
  bits, a tie to the one with an even last bit.
\<close>

definition pow2 :: "int \<Rightarrow> real" where
  "pow2 k = (if 0 \<le> k then 2 ^ nat k else 1 / 2 ^ nat (- k))"

definition exponent :: "real \<Rightarrow> int" where
  "exponent x = \<lfloor>log 2 \<bar>x\<bar>\<rfloor>"

definition round_half_even :: "real \<Rightarrow> int" where
  "round_half_even x =
     (let f = \<lfloor>x\<rfloor>
      in if x - of_int f < 1 / 2 then f
         else if 1 / 2 < x - of_int f then f + 1
         else if even f then f else f + 1)"

definition to_double :: "real \<Rightarrow> real" where
  "to_double x =
     (if x = 0 then 0
      else let e = exponent x
           in of_int (round_half_even (x * pow2 (52 - e))) * pow2 (e - 52))"

definition binary64 :: float_ops where
  "binary64 =
     \<lparr>fmul = (\<lambda>a b. to_double (a * b)),
      fadd = (\<lambda>a b. to_double (a + b)),
      of_count = (\<lambda>n. to_double (real n)),
      tenth = to_double (1 / 10)\<rparr>"

subsection \<open>Re-ranking and retrieval\<close>

text \<open>The number of words of the lower-cased query that occur in the lower-cased text.\<close>

definition word_matches :: "string \<Rightarrow> string \<Rightarrow> nat" where
  "word_matches query_lower text_lower =
     length (filter (\<lambda>word. sublist word text_lower) (py_split_ws query_lower))"

text \<open>The body of the loop of \<open>_rerank\<close> for one hit: \<open>boost = 1.0 + (word_matches * 0.1)\<close>
  and \<open>result.score *= boost\<close>.\<close>

definition boosted :: "float_ops \<Rightarrow> string \<Rightarrow> SearchResult \<Rightarrow> SearchResult" where
  "boosted fl query_lower result =
     (let text_lower = py_lower (sr_text result);
          boost = fadd fl 1
                    (fmul fl (of_count fl (word_matches query_lower text_lower)) (tenth fl))
      in result\<lparr>score := fmul fl (score result) boost\<rparr>)"

text \<open>
  The hits are objects, and \<open>_rerank\<close> changes them in place: the objects live in a
  heap, a list of \<open>SearchResult\<close> values, and a hit of the result list is a reference,
  the index of its object in the heap. The loop updates the object of every list
  position in turn.
\<close>

type_synonym heap = "SearchResult list"

fun boost_loop :: "float_ops \<Rightarrow> string \<Rightarrow> nat list \<Rightarrow> heap \<Rightarrow> heap" where
  "boost_loop fl query_lower [] h = h"
| "boost_loop fl query_lower (r # rs) h =
     boost_loop fl query_lower rs (h[r := boosted fl query_lower (h ! r)])"

text \<open>\<open>_rerank\<close>: the loop, then \<open>results.sort(key=lambda r: r.score, reverse=True)\<close> on
  the list of references, with the scores read from the updated objects.\<close>

definition rerank :: "float_ops \<Rightarrow> string \<Rightarrow> nat list \<Rightarrow> heap \<Rightarrow> nat list \<times> heap" where
  "rerank fl query refs h =
     (let query_lower = py_lower query;
          h' = boost_loop fl query_lower refs h
      in (sort_desc (\<lambda>r. score (h' ! r)) refs, h'))"

text \<open>
  \<open>retrieve\<close>. The hits that \<open>search\<close> returns are objects of their own, built by the
  port for this call: the \<open>i\<close>-th hit is the object at address \<open>i\<close> of a heap that holds
  these hits and nothing else.
\<close>

definition reranked :: "float_ops \<Rightarrow> string \<Rightarrow> SearchResult list \<Rightarrow> SearchResult list" where
  "reranked fl query found =
     (case rerank fl query [0..<length found] found of
        (refs, h') \<Rightarrow> map (\<lambda>r. h' ! r) refs)"

definition retrieve ::
  "float_ops \<Rightarrow> 's Retriever \<Rightarrow> string \<Rightarrow> int option \<Rightarrow> metadata option \<Rightarrow> 's world
     \<Rightarrow> (error + RetrievalResult) \<times> 's world" where
  "retrieve fl self query k filters w =
     (if blank query then (Inl (ValueError ''Query cannot be empty''), w)
      else
        case embed (embedder self) query (ports w) of
          (Inl e, s1) \<Rightarrow> (Inl e, w\<lparr>ports := s1\<rparr>)
        | (Inr query_embedding, s1) \<Rightarrow>
            (case search (vector_store self) (emb_vector query_embedding)
                    (int_or k (top_k (config self))) filters
                    (score_threshold (config self)) s1 of
               (Inl e, s2) \<Rightarrow> (Inl e, w\<lparr>ports := s2\<rparr>)
             | (Inr found, s2) \<Rightarrow>
                 let found' = (if use_reranking (config self) \<and> found \<noteq> []
                               then reranked fl query found else found)
                 in (Inr \<lparr>rr_query = query, results = found',
                          total_results = int (length found'),
                          filters_applied = (case filters of None \<Rightarrow> [] | Some f \<Rightarrow> f)\<rparr>,
                     w\<lparr>ports := s2\<rparr>)))"

subsection \<open>Rejection of empty queries\<close>

text \<open>
  Ports that count their calls: the state is the number of calls made so far.
\<close>

definition counting_embedder :: "nat EmbedderProtocol" where
  "counting_embedder =
     \<lparr>embed = (\<lambda>text n. (Inr \<lparr>emb_text = text, emb_vector = [], emb_model = ''count'',
                                emb_dimensions = 0\<rparr>, Suc n)),
      embed_batch = (\<lambda>texts n. (Inr [], Suc n))\<rparr>"

definition counting_store :: "nat VectorStore" where
  "counting_store =
     \<lparr>upsert = (\<lambda>docs n. (Inr 0, Suc n)),
      search = (\<lambda>v k f t n. (Inr [], Suc n))\<rparr>"

definition counting_retriever :: "nat Retriever" where
  "counting_retriever =
     \<lparr>config = \<lparr>top_k = 5, score_threshold = None, use_reranking = False\<rparr>,
      embedder = counting_embedder, vector_store = counting_store\<rparr>"

lemma blank_spaces: "blank ''   ''"
  by (simp add: blank_def py_strip_def py_isspace_def)

text \<open>
  C7. For a query that is empty or only whitespace, \<open>retrieve\<close> raises the invalid-input
  error and leaves the world as it was, whatever the two ports are: no port is called
  (a port that was called could have changed the state or raised its own error).
\<close>

theorem retrieve_blank_rejected:
  "blank query \<Longrightarrow>
   retrieve fl self query k filters w = (Inl (ValueError ''Query cannot be empty''), w)"
  by (simp add: retrieve_def)

theorem retrieve_blank_rejected_witness:
  "blank ''   '' \<and>
   retrieve binary64 counting_retriever ''   '' None None \<lparr>ports = 0, uuid_calls = 0\<rparr>
     = (Inl (ValueError ''Query cannot be empty''), \<lparr>ports = 0, uuid_calls = 0\<rparr>) \<and>
   snd (retrieve binary64 counting_retriever ''leave'' None None \<lparr>ports = 0, uuid_calls = 0\<rparr>)
     = \<lparr>ports = 2, uuid_calls = 0\<rparr>"
proof -
  have "snd (retrieve binary64 counting_retriever ''leave'' None None \<lparr>ports = 0, uuid_calls = 0\<rparr>)
     = \<lparr>ports = 2, uuid_calls = 0\<rparr>"
    by (simp add: retrieve_def counting_retriever_def counting_embedder_def
        counting_store_def blank_def py_strip_def py_isspace_def int_or_def)
  with blank_spaces
    retrieve_blank_rejected [OF blank_spaces, of binary64 counting_retriever None None
      "\<lparr>ports = 0, uuid_calls = 0\<rparr>"]
  show ?thesis by simp
qed

subsection \<open>Re-ranking: the specification's word count\<close>



















subsection \<open>Re-ranking: scores, order and hits\<close>









text \<open>The loop over a list of distinct references.\<close>

lemma boost_loop_length [simp]: "length (boost_loop fl q refs h) = length h"
  by (induction refs arbitrary: h) simp_all

lemma boost_loop_nth:
  "distinct refs \<Longrightarrow> r < length h \<Longrightarrow>
   boost_loop fl q refs h ! r = (if r \<in> set refs then boosted fl q (h ! r) else h ! r)"
proof (induction refs arbitrary: h)
  case Nil
  then show ?case by simp
next
  case (Cons a refs)
  let ?h1 = "h[a := boosted fl q (h ! a)]"
  from Cons.prems have d: "distinct refs" and a: "a \<notin> set refs" by simp_all
  from Cons.prems(2) have "r < length ?h1" by simp
  from Cons.IH [OF d this]
  have "boost_loop fl q refs ?h1 ! r = (if r \<in> set refs then boosted fl q (?h1 ! r) else ?h1 ! r)" .
  with a Cons.prems(2) show ?case
    by (cases "r = a") auto
qed

text \<open>A hit object that stands twice in the list is updated twice.\<close>

lemma boost_loop_aliased:
  "r < length h \<Longrightarrow> boost_loop fl q [r, r] h ! r = boosted fl q (boosted fl q (h ! r))"
  by simp


definition hit :: "string \<Rightarrow> string \<Rightarrow> real \<Rightarrow> SearchResult" where
  "hit i t sc = \<lparr>sr_id = i, sr_text = t, score = sc, sr_metadata = []\<rparr>"




text \<open>For the hits of a search, objects of their own, the re-ranked list is the sorted
  list of the boosted hits.\<close>

lemma map_insort_key:
  "map f (insort_key (\<lambda>x. k (f x)) a xs) = insort_key k (f a) (map f xs)"
  by (induction xs) simp_all

lemma map_sort_desc: "map f (sort_desc (\<lambda>x. k (f x)) xs) = sort_desc k (map f xs)"
  unfolding sort_desc_def
  by (induction xs) (simp_all add: map_insort_key [where k = "\<lambda>y. - k y"])

lemma reranked_eq:
  "reranked fl query found = sort_desc score (map (boosted fl (py_lower query)) found)"
proof -
  let ?h' = "boost_loop fl (py_lower query) [0..<length found] found"
  have h: "?h' = map (boosted fl (py_lower query)) found"
    by (rule nth_equalityI) (simp_all add: boost_loop_nth)
  have "reranked fl query found
      = map (\<lambda>r. ?h' ! r) (sort_desc (\<lambda>r. score (?h' ! r)) [0..<length found])"
    by (simp add: reranked_def rerank_def Let_def)
  also have "\<dots> = sort_desc score (map (\<lambda>r. ?h' ! r) [0..<length found])"
    by (rule map_sort_desc)
  also have "map (\<lambda>r. ?h' ! r) [0..<length found] = ?h'"
    using map_nth [of ?h'] by simp
  finally show ?thesis
    by (simp only: h)
qed

subsection \<open>Indexing chunks\<close>

definition mock_retriever :: "int \<Rightarrow> (string \<Rightarrow> vector) \<Rightarrow> documents Retriever" where
  "mock_retriever dimensions gen =
     \<lparr>config = \<lparr>top_k = 5, score_threshold = None, use_reranking = False\<rparr>,
      embedder = MockEmbedder dimensions gen, vector_store = MockVectorStore\<rparr>"

lemma Mock_embed_batch_no_blank:
  "list_all (\<lambda>t. \<not> blank t) texts \<Longrightarrow>
   Mock_embed_batch d gen texts =
     Inr (map (\<lambda>t. \<lparr>emb_text = t, emb_vector = gen t, emb_model = ''mock-embedder'',
                      emb_dimensions = d\<rparr>) texts)"
  by (induction texts) (auto simp: Mock_embed_def blank_def)

lemma blank_space: "py_strip '' '' = []"
  by (simp add: py_strip_def py_isspace_def)

lemma not_blank_pay: "py_strip ''pay'' \<noteq> []" "\<not> blank ''pay''"
  by (simp_all add: blank_def py_strip_def py_isspace_def)

text \<open>Without blank chunk texts, every chunk is stored with its own text and the
  embedding of that text, in the order of the input.\<close>

lemma vector_docs_zip_map:
  "map doc_text (vector_docs uuid4 document_id (zip cs (map (g \<circ> chunk_text) cs)) n)
     = map chunk_text cs \<and>
   map doc_vector (vector_docs uuid4 document_id (zip cs (map (g \<circ> chunk_text) cs)) n)
     = map (emb_vector \<circ> g \<circ> chunk_text) cs"
  by (induction cs arbitrary: n) (simp_all add: Let_def)

lemma index_chunks_aligned_without_blank:
  assumes "list_all (\<lambda>c. \<not> blank (chunk_text c)) chunks" and "chunks \<noteq> []"
  shows "\<exists>docs.
    index_chunks (mock_retriever d gen) uuid4 chunks document_id w
      = (Inr (int (length chunks)),
         w\<lparr>ports := store_all docs (ports w),
           uuid_calls := uuid_calls w + length chunks\<rparr>) \<and>
    map doc_text docs = map chunk_text chunks \<and>
    map doc_vector docs = map (gen \<circ> chunk_text) chunks"
proof -
  let ?g = "\<lambda>t. \<lparr>emb_text = t, emb_vector = gen t, emb_model = ''mock-embedder'',
                  emb_dimensions = d\<rparr>"
  let ?embs = "map (?g \<circ> chunk_text) chunks"
  let ?docs = "vector_docs uuid4 document_id (zip chunks ?embs) (uuid_calls w)"
  from assms(1) have "list_all (\<lambda>t. \<not> blank t) (map chunk_text chunks)"
    by (simp add: list_all_iff)
  then have "Mock_embed_batch d gen (map chunk_text chunks) = Inr (map ?g (map chunk_text chunks))"
    by (rule Mock_embed_batch_no_blank)
  then have e: "Mock_embed_batch d gen (map chunk_text chunks) = Inr ?embs"
    by simp
  have t: "map doc_text ?docs = map chunk_text chunks"
    using vector_docs_zip_map [of uuid4 document_id chunks ?g "uuid_calls w"] by blast
  have "map doc_vector ?docs = map (emb_vector \<circ> ?g \<circ> chunk_text) chunks"
    using vector_docs_zip_map [of uuid4 document_id chunks ?g "uuid_calls w"] by blast
  then have v: "map doc_vector ?docs = map (gen \<circ> chunk_text) chunks"
    by (simp add: comp_def)
  have l: "length ?docs = length chunks"
    using arg_cong [OF t, of length] by simp
  have "index_chunks (mock_retriever d gen) uuid4 chunks document_id w
      = (Inr (int (length chunks)),
         w\<lparr>ports := store_all ?docs (ports w),
           uuid_calls := uuid_calls w + length chunks\<rparr>)"
    using assms(2) e l
    by (simp add: index_chunks_def mock_retriever_def MockEmbedder_def MockVectorStore_def
        Mock_upsert_def Let_def)
  with t v show ?thesis by blast
qed

text \<open>
  C2. The pairing of chunks with embeddings is claimed to survive empty chunk texts. The
  batch embedding drops the whitespace-only first text, and \<open>zip\<close> pairs the embedding
  of the second text with the first chunk: for the chunks \<open>" "\<close> and \<open>"pay"\<close> the store
  receives one passage, whose text is \<open>" "\<close> and whose vector is the embedding of
  \<open>"pay"\<close>.
\<close>

theorem index_chunks_misaligned:
  "index_chunks (mock_retriever d gen) uuid4
     [\<lparr>chunk_text = '' '', chunk_index = 0, chunk_metadata = []\<rparr>,
      \<lparr>chunk_text = ''pay'', chunk_index = 1, chunk_metadata = []\<rparr>]
     None \<lparr>ports = [], uuid_calls = 0\<rparr>
   = (Inr 1,
      \<lparr>ports = [(uuid4 0, \<lparr>doc_id = uuid4 0, doc_vector = gen ''pay'', doc_text = '' '',
                              doc_metadata = [(''chunk_index'', PInt 0)]\<rparr>)],
       uuid_calls = 1\<rparr>)"
  by (simp add: index_chunks_def mock_retriever_def MockEmbedder_def MockVectorStore_def
      Mock_upsert_def Mock_embed_def blank_space not_blank_pay)

text \<open>The same input through \<open>OpenAIEmbedder.embed_batch\<close>, which computes the positions
  of the texts it keeps and does not return them: the vector of \<open>pay\<close> is again stored
  with the text of the first chunk.\<close>

lemma index_chunks_misaligned_openai:
  "index_chunks
     \<lparr>config = \<lparr>top_k = 5, score_threshold = None, use_reranking = False\<rparr>,
      embedder = OpenAIEmbedder model api, vector_store = MockVectorStore\<rparr> uuid4
     [\<lparr>chunk_text = '' '', chunk_index = 0, chunk_metadata = []\<rparr>,
      \<lparr>chunk_text = ''pay'', chunk_index = 1, chunk_metadata = []\<rparr>]
     None \<lparr>ports = [], uuid_calls = 0\<rparr>
   = (Inr 1,
      \<lparr>ports = [(uuid4 0, \<lparr>doc_id = uuid4 0, doc_vector = api ''pay'', doc_text = '' '',
                              doc_metadata = [(''chunk_index'', PInt 0)]\<rparr>)],
       uuid_calls = 1\<rparr>)"
proof -
  have c: "clean '' '' = []" "clean ''pay'' = ''pay''"
    by (simp_all add: clean_def py_strip_def py_isspace_def)
  have "OpenAI_embed_batch model api ['' '', ''pay'']
      = Inr [\<lparr>emb_text = ''pay'', emb_vector = api ''pay'', emb_model = model,
               emb_dimensions = int (length (api ''pay''))\<rparr>]"
    by (simp add: OpenAI_embed_batch_def c enumerate_eq_zip Let_def)
  then show ?thesis
    by (simp add: index_chunks_def OpenAIEmbedder_def MockVectorStore_def Mock_upsert_def)
qed

section \<open>Chunking (app/services/chunker.py)\<close>

record ChunkerConfig =
  chunk_size :: int
  chunk_overlap :: int
  min_chunk_size :: int
  separators :: "string list"

definition default_separators :: "string list" where
  "default_separators =
     [''\<newline>\<newline>\<newline>'', ''\<newline>\<newline>'', ''\<newline>'',
      ''. '', ''? '', ''! '', ''; '', '', '', '' '', []]"

definition default_config :: ChunkerConfig where
  "default_config =
     \<lparr>chunk_size = 1000, chunk_overlap = 200, min_chunk_size = 100,
      separators = default_separators\<rparr>"

text \<open>\<open>len(s)\<close>\<close>

definition len :: "'a list \<Rightarrow> int" where
  "len xs = int (length xs)"

text \<open>\<open>xs[a:b]\<close> for any integers: negative indices count from the end, and both ends
  are clamped to the list.\<close>

definition py_index :: "int \<Rightarrow> int \<Rightarrow> nat" where
  "py_index n i = nat (if i < 0 then max 0 (n + i) else min i n)"

definition py_slice :: "'a list \<Rightarrow> int \<Rightarrow> int \<Rightarrow> 'a list" where
  "py_slice xs a b =
     (let a' = py_index (len xs) a; b' = py_index (len xs) b
      in take (b' - a') (drop a' xs))"

text \<open>\<open>text.split(separator)\<close> for a separator that is not empty; \<open>cur\<close> is the piece
  read so far.\<close>

fun split_on :: "string \<Rightarrow> string \<Rightarrow> string \<Rightarrow> string list" where
  "split_on sep [] cur = [cur]"
| "split_on sep (c # cs) cur =
     (if sep \<noteq> [] \<and> prefix sep (c # cs)
      then cur # split_on sep (drop (length sep - 1) cs) []
      else split_on sep cs (cur @ [c]))"

definition py_split :: "string \<Rightarrow> string \<Rightarrow> string list" where
  "py_split text sep = split_on sep text []"

subsection \<open>FixedSizeChunker\<close>

definition fixed_chunk :: "string \<Rightarrow> int \<Rightarrow> Chunk" where
  "fixed_chunk candidate i =
     \<lparr>chunk_text = py_strip candidate, chunk_index = i,
      chunk_metadata = [(''chunk_size'', PInt (len candidate)),
                        (''chunking_strategy'', PStr ''fixed_size'')]\<rparr>"

text \<open>The \<open>while\<close> loop; the result is \<open>None\<close> when the loop does not end.\<close>

partial_function (option) fixed_loop ::
  "ChunkerConfig \<Rightarrow> string \<Rightarrow> int \<Rightarrow> Chunk list \<Rightarrow> Chunk list option" where
  "fixed_loop cfg text start chunks =
     (if start < len text
      then (let end = start + chunk_size cfg;
                candidate = py_slice text start end;
                chunks' = (if py_strip candidate \<noteq> []
                           then chunks @ [fixed_chunk candidate (len chunks)]
                           else chunks)
            in fixed_loop cfg text (end - chunk_overlap cfg) chunks')
      else Some chunks)"

definition FixedSizeChunker_chunk :: "ChunkerConfig \<Rightarrow> string \<Rightarrow> Chunk list option" where
  "FixedSizeChunker_chunk cfg text =
     (if blank text then Some [] else fixed_loop cfg text 0 [])"

declare fixed_loop.simps [code]

lemma fixed_loop_step:
  "start < len text \<Longrightarrow>
   fixed_loop cfg text start chunks =
     fixed_loop cfg text (start + (chunk_size cfg - chunk_overlap cfg))
       (if py_strip (py_slice text start (start + chunk_size cfg)) \<noteq> []
        then chunks @ [fixed_chunk (py_slice text start (start + chunk_size cfg)) (len chunks)]
        else chunks)"
  by (subst fixed_loop.simps) (simp add: Let_def algebra_simps)

lemma fixed_loop_terminates:
  assumes "chunk_overlap cfg < chunk_size cfg"
  shows "\<exists>r. fixed_loop cfg text start chunks = Some r"
proof (induction "nat (len text - start)" arbitrary: start chunks rule: less_induct)
  case less
  show ?case
  proof (cases "start < len text")
    case False
    then show ?thesis by (subst fixed_loop.simps) simp
  next
    case True
    let ?start' = "start + (chunk_size cfg - chunk_overlap cfg)"
    from True assms have "nat (len text - ?start') < nat (len text - start)" by simp
    from less [OF this] True show ?thesis
      by (simp add: fixed_loop_step)
  qed
qed

lemma fixed_loop_diverges:
  assumes "fixed_loop cfg text start chunks = Some r"
  shows "\<not> (chunk_size cfg \<le> chunk_overlap cfg \<and> start \<le> 0 \<and> text \<noteq> [])"
proof (rule fixed_loop.raw_induct
    [where P = "\<lambda>c t s ch r. \<not> (chunk_size c \<le> chunk_overlap c \<and> s \<le> 0 \<and> t \<noteq> [])",
      OF _ assms])
  fix f :: "ChunkerConfig \<Rightarrow> string \<Rightarrow> int \<Rightarrow> Chunk list \<Rightarrow> Chunk list option"
    and c :: ChunkerConfig and t :: string and s :: int and ch r' :: "Chunk list"
  assume ih: "\<And>c t s ch r. f c t s ch = Some r \<Longrightarrow>
      \<not> (chunk_size c \<le> chunk_overlap c \<and> s \<le> 0 \<and> t \<noteq> [])"
    and body: "(if s < len t
      then (let end = s + chunk_size c;
                candidate = py_slice t s end;
                chunks' = (if py_strip candidate \<noteq> []
                           then ch @ [fixed_chunk candidate (len ch)]
                           else ch)
            in f c t (end - chunk_overlap c) chunks')
      else Some ch) = Some r'"
  show "\<not> (chunk_size c \<le> chunk_overlap c \<and> s \<le> 0 \<and> t \<noteq> [])"
  proof
    assume a: "chunk_size c \<le> chunk_overlap c \<and> s \<le> 0 \<and> t \<noteq> []"
    then have lt: "s < len t" by (cases t) (simp_all add: len_def)
    from a have le: "s + chunk_size c - chunk_overlap c \<le> 0" by simp
    from body lt obtain ch' where "f c t (s + chunk_size c - chunk_overlap c) ch' = Some r'"
      by (simp add: Let_def)
    from ih [OF this] a le show False by simp
  qed
qed

lemma fixed_loop_never_returns:
  "chunk_size cfg \<le> chunk_overlap cfg \<Longrightarrow> text \<noteq> [] \<Longrightarrow>
   fixed_loop cfg text 0 chunks = None"
  using fixed_loop_diverges [of cfg "text" 0 chunks]
  by (cases "fixed_loop cfg text 0 chunks") auto

text \<open>
  C10 as stated fails in its second half: a whitespace-only text longer than
  \<open>chunk_size\<close> is answered by the guard before the loop, so \<open>chunk\<close> terminates on it
  also when the overlap is not below the chunk size.
\<close>

theorem FixedSizeChunker_blank_terminates_anyway:
  "chunk_size \<lparr>chunk_size = 2, chunk_overlap = 2, min_chunk_size = 1, separators = []\<rparr>
     < len ''   '' \<and>
   \<not> chunk_overlap \<lparr>chunk_size = 2, chunk_overlap = 2, min_chunk_size = 1, separators = []\<rparr>
     < chunk_size \<lparr>chunk_size = 2, chunk_overlap = 2, min_chunk_size = 1, separators = []\<rparr> \<and>
   FixedSizeChunker_chunk
     \<lparr>chunk_size = 2, chunk_overlap = 2, min_chunk_size = 1, separators = []\<rparr> ''   ''
     = Some []"
  by (simp add: FixedSizeChunker_chunk_def blank_spaces len_def)

text \<open>
  C10, amended. With \<open>chunk_overlap < chunk_size\<close>, \<open>FixedSizeChunker.chunk\<close> returns a
  (finite) list of chunks for every text, each step of the loop moving the window start
  forward by \<open>chunk_size - chunk_overlap\<close>. The precondition is necessary exactly on the
  texts that pass the guard: on a text that is not empty or whitespace-only (of any
  length) and with \<open>chunk_overlap \<ge> chunk_size\<close> the loop never returns; an empty or
  whitespace-only text yields \<open>[]\<close> under every configuration.
\<close>

theorem FixedSizeChunker_terminates_iff:
  "(chunk_overlap cfg < chunk_size cfg \<longrightarrow>
      (\<exists>chunks. FixedSizeChunker_chunk cfg text = Some chunks)) \<and>
   (start < len text \<longrightarrow>
      (\<exists>chunks'. fixed_loop cfg text start chunks =
         fixed_loop cfg text (start + (chunk_size cfg - chunk_overlap cfg)) chunks')) \<and>
   (blank text \<longrightarrow> FixedSizeChunker_chunk cfg text = Some []) \<and>
   (\<not> blank text \<and> chunk_size cfg \<le> chunk_overlap cfg \<longrightarrow>
      FixedSizeChunker_chunk cfg text = None)"
proof (intro conjI impI)
  assume "chunk_overlap cfg < chunk_size cfg"
  then show "\<exists>chunks. FixedSizeChunker_chunk cfg text = Some chunks"
    using fixed_loop_terminates [of cfg "text" 0 "[]"]
    by (simp add: FixedSizeChunker_chunk_def)
next
  assume "start < len text"
  then show "\<exists>chunks'. fixed_loop cfg text start chunks =
         fixed_loop cfg text (start + (chunk_size cfg - chunk_overlap cfg)) chunks'"
    using fixed_loop_step [of start "text" cfg chunks] by blast
next
  assume "blank text"
  then show "FixedSizeChunker_chunk cfg text = Some []"
    by (simp add: FixedSizeChunker_chunk_def)
next
  assume a: "\<not> blank text \<and> chunk_size cfg \<le> chunk_overlap cfg"
  then have "text \<noteq> []" by (auto simp: blank_def)
  with a show "FixedSizeChunker_chunk cfg text = None"
    by (simp add: FixedSizeChunker_chunk_def fixed_loop_never_returns)
qed

lemma FixedSizeChunker_example:
  "FixedSizeChunker_chunk
     \<lparr>chunk_size = 4, chunk_overlap = 1, min_chunk_size = 1, separators = []\<rparr> ''ab  cdefg''
   = Some [\<lparr>chunk_text = ''ab'', chunk_index = 0,
             chunk_metadata = [(''chunk_size'', PInt 4),
                               (''chunking_strategy'', PStr ''fixed_size'')]\<rparr>,
           \<lparr>chunk_text = ''cde'', chunk_index = 1,
             chunk_metadata = [(''chunk_size'', PInt 4),
                               (''chunking_strategy'', PStr ''fixed_size'')]\<rparr>,
           \<lparr>chunk_text = ''efg'', chunk_index = 2,
             chunk_metadata = [(''chunk_size'', PInt 3),
                               (''chunking_strategy'', PStr ''fixed_size'')]\<rparr>]"
  by code_simp

lemma not_blank_abc: "\<not> blank ''abc''"
  by (simp add: blank_def py_strip_def py_isspace_def)

theorem FixedSizeChunker_terminates_iff_witness:
  "chunk_overlap \<lparr>chunk_size = 4, chunk_overlap = 1, min_chunk_size = 1, separators = []\<rparr>
     < chunk_size \<lparr>chunk_size = 4, chunk_overlap = 1, min_chunk_size = 1, separators = []\<rparr> \<and>
   (\<exists>chunks. FixedSizeChunker_chunk
      \<lparr>chunk_size = 4, chunk_overlap = 1, min_chunk_size = 1, separators = []\<rparr> ''ab  cdefg''
      = Some chunks) \<and>
   \<not> blank ''abc'' \<and>
   chunk_size \<lparr>chunk_size = 2, chunk_overlap = 2, min_chunk_size = 1, separators = []\<rparr>
     \<le> chunk_overlap \<lparr>chunk_size = 2, chunk_overlap = 2, min_chunk_size = 1, separators = []\<rparr> \<and>
   FixedSizeChunker_chunk
     \<lparr>chunk_size = 2, chunk_overlap = 2, min_chunk_size = 1, separators = []\<rparr> ''abc'' = None"
  using FixedSizeChunker_terminates_iff
      [of "\<lparr>chunk_size = 4, chunk_overlap = 1, min_chunk_size = 1, separators = []\<rparr>"
        "''ab  cdefg''" 0 "[]"]
    FixedSizeChunker_terminates_iff
      [of "\<lparr>chunk_size = 2, chunk_overlap = 2, min_chunk_size = 1, separators = []\<rparr>"
        "''abc''" 0 "[]"]
    not_blank_abc
  by simp

subsection \<open>SentenceChunker\<close>

text \<open>
  \<open>re.compile(r'(?<=[.!?])\s+').split(text)\<close>: the text is cut at every maximal run of
  whitespace that follows one of \<open>.\<close>, \<open>!\<close>, \<open>?\<close>. \<open>prev\<close> is the character before
  the position read, \<open>cur\<close> the sentence read so far.
\<close>

function sentence_split :: "char option \<Rightarrow> string \<Rightarrow> string \<Rightarrow> string list" where
  "sentence_split prev [] cur = [cur]"
| "sentence_split prev (c # cs) cur =
     (if (case prev of None \<Rightarrow> False | Some p \<Rightarrow> p \<in> set ''.!?'') \<and> py_isspace c
      then cur # sentence_split (Some (last (c # takeWhile py_isspace cs)))
                   (dropWhile py_isspace cs) []
      else sentence_split (Some c) cs (cur @ [c]))"
  by pat_completeness auto
termination
  by (relation "measure (\<lambda>(prev, s, cur). length s)")
    (auto intro: le_imp_less_Suc length_dropWhile_le)

text \<open>The grouping loop and the closing \<open>if\<close> after it.\<close>

fun sentence_loop :: "ChunkerConfig \<Rightarrow> string list \<Rightarrow> string list \<Rightarrow> string \<Rightarrow> string list" where
  "sentence_loop cfg [] chunks current_chunk =
     (if py_strip current_chunk \<noteq> [] then chunks @ [py_strip current_chunk] else chunks)"
| "sentence_loop cfg (sentence # sentences) chunks current_chunk =
     (if len current_chunk + len sentence \<le> chunk_size cfg
      then sentence_loop cfg sentences chunks (current_chunk @ sentence @ '' '')
      else sentence_loop cfg sentences
             (if py_strip current_chunk \<noteq> [] then chunks @ [py_strip current_chunk]
              else chunks)
             (sentence @ '' ''))"

definition sentence_chunk_of :: "nat \<times> string \<Rightarrow> Chunk" where
  "sentence_chunk_of p =
     (case p of (i, candidate) \<Rightarrow>
        \<lparr>chunk_text = candidate, chunk_index = int i,
         chunk_metadata = [(''chunk_size'', PInt (len candidate)),
                           (''chunking_strategy'', PStr ''sentence'')]\<rparr>)"

definition SentenceChunker_chunk :: "ChunkerConfig \<Rightarrow> string \<Rightarrow> Chunk list" where
  "SentenceChunker_chunk cfg text =
     (if blank text then []
      else
        let sentences = sentence_split None text [];
            chunks = sentence_loop cfg sentences [] []
        in map sentence_chunk_of (enumerate 0 chunks))"

subsection \<open>RecursiveChunker\<close>

text \<open>
  \<open>_split_recursive\<close> and its \<open>for\<close> loop over the splits, with the closing \<open>if\<close> after
  the loop; \<open>close_chunk\<close> is the code that saves the current chunk, written twice in
  the source.
\<close>

fun split_recursive :: "ChunkerConfig \<Rightarrow> string \<Rightarrow> string list \<Rightarrow> string list"
  and split_loop ::
    "ChunkerConfig \<Rightarrow> string \<Rightarrow> string list \<Rightarrow> string list \<Rightarrow> string list \<Rightarrow> string
       \<Rightarrow> string list"
  and close_chunk ::
    "ChunkerConfig \<Rightarrow> string list \<Rightarrow> string list \<Rightarrow> string \<Rightarrow> string list"
where
  "split_recursive cfg text [] = [text]"
| "split_recursive cfg text (separator # remaining_separators) =
     (if len text \<le> chunk_size cfg then [text]
      else split_loop cfg separator remaining_separators
             (if separator \<noteq> [] then py_split text separator else map (\<lambda>c. [c]) text)
             [] [])"
| "split_loop cfg separator remaining_separators [] chunks current_chunk =
     close_chunk cfg remaining_separators chunks current_chunk"
| "split_loop cfg separator remaining_separators (split # splits) chunks current_chunk =
     (let piece = (if separator \<noteq> [] then split @ separator else split)
      in if len current_chunk + len piece > chunk_size cfg
         then split_loop cfg separator remaining_separators splits
                (close_chunk cfg remaining_separators chunks current_chunk) piece
         else split_loop cfg separator remaining_separators splits chunks
                (current_chunk @ piece))"
| "close_chunk cfg remaining_separators chunks current_chunk =
     (if current_chunk \<noteq> []
      then (if len current_chunk > chunk_size cfg
            then chunks @ split_recursive cfg current_chunk remaining_separators
            else chunks @ [current_chunk])
      else chunks)"

text \<open>\<open>_merge_small_chunks\<close>: the loop over \<open>chunks[1:]\<close> and the closing \<open>if\<close>.\<close>

fun merge_loop :: "ChunkerConfig \<Rightarrow> string list \<Rightarrow> string list \<Rightarrow> string \<Rightarrow> string list" where
  "merge_loop cfg [] merged current =
     (if current \<noteq> [] \<and> len current \<ge> min_chunk_size cfg then merged @ [current]
      else if current \<noteq> [] \<and> merged \<noteq> [] then butlast merged @ [last merged @ current]
      else if current \<noteq> [] then merged @ [current]
      else merged)"
| "merge_loop cfg (next_chunk # rest) merged current =
     (if len current + len next_chunk \<le> chunk_size cfg
      then merge_loop cfg rest merged (current @ next_chunk)
      else
        let merged' = (if len current \<ge> min_chunk_size cfg then merged @ [current]
                       else merged);
            overlap_text = (if len current > chunk_overlap cfg
                            then py_slice_from current (- chunk_overlap cfg)
                            else current)
        in merge_loop cfg rest merged' (overlap_text @ next_chunk))"

definition merge_small_chunks :: "ChunkerConfig \<Rightarrow> string list \<Rightarrow> string list" where
  "merge_small_chunks cfg chunks =
     (case chunks of [] \<Rightarrow> [] | first # rest \<Rightarrow> merge_loop cfg rest [] first)"

definition recursive_chunk_of :: "nat \<times> string \<Rightarrow> Chunk" where
  "recursive_chunk_of p =
     (case p of (i, candidate) \<Rightarrow>
        \<lparr>chunk_text = py_strip candidate, chunk_index = int i,
         chunk_metadata = [(''chunk_size'', PInt (len candidate)),
                           (''chunking_strategy'', PStr ''recursive'')]\<rparr>)"

definition RecursiveChunker_chunk :: "ChunkerConfig \<Rightarrow> string \<Rightarrow> Chunk list" where
  "RecursiveChunker_chunk cfg text =
     (if blank text then []
      else
        let raw_chunks = split_recursive cfg text (separators cfg);
            merged_chunks = merge_small_chunks cfg raw_chunks
        in map recursive_chunk_of
             (filter (\<lambda>(i, candidate). py_strip candidate \<noteq> [])
                (enumerate 0 merged_chunks)))"

subsection \<open>Chunk metadata and indices\<close>

text \<open>The sentence strategy numbers the chunks it emits from 0 without gaps, and records
  the length of the emitted text.\<close>

lemma SentenceChunker_metadata:
  assumes "i < length (SentenceChunker_chunk cfg text)"
  shows "chunk_index (SentenceChunker_chunk cfg text ! i) = int i \<and>
         chunk_metadata (SentenceChunker_chunk cfg text ! i) =
           [(''chunk_size'', PInt (len (chunk_text (SentenceChunker_chunk cfg text ! i)))),
            (''chunking_strategy'', PStr ''sentence'')]"
proof (cases "blank text")
  case True
  with assms show ?thesis by (simp add: SentenceChunker_chunk_def)
next
  case False
  with assms show ?thesis
    by (simp add: SentenceChunker_chunk_def Let_def sentence_chunk_of_def nth_enumerate_eq)
qed

text \<open>The fixed-size strategy numbers the chunks it emits from 0 without gaps as
  well.\<close>

lemma fixed_loop_indices:
  assumes "fixed_loop cfg text start chunks = Some r"
  shows "map chunk_index chunks = map int [0..<length chunks] \<longrightarrow>
         map chunk_index r = map int [0..<length r]"
proof (rule fixed_loop.raw_induct
    [where P = "\<lambda>c t s ch r. map chunk_index ch = map int [0..<length ch] \<longrightarrow>
         map chunk_index r = map int [0..<length r]", OF _ assms])
  fix f :: "ChunkerConfig \<Rightarrow> string \<Rightarrow> int \<Rightarrow> Chunk list \<Rightarrow> Chunk list option"
    and c :: ChunkerConfig and t :: string and s :: int and ch r' :: "Chunk list"
  assume ih: "\<And>c t s ch r. f c t s ch = Some r \<Longrightarrow>
      map chunk_index ch = map int [0..<length ch] \<longrightarrow>
      map chunk_index r = map int [0..<length r]"
    and body: "(if s < len t
      then (let end = s + chunk_size c;
                candidate = py_slice t s end;
                chunks' = (if py_strip candidate \<noteq> []
                           then ch @ [fixed_chunk candidate (len ch)]
                           else ch)
            in f c t (end - chunk_overlap c) chunks')
      else Some ch) = Some r'"
  show "map chunk_index ch = map int [0..<length ch] \<longrightarrow>
      map chunk_index r' = map int [0..<length r']"
  proof
    assume inv: "map chunk_index ch = map int [0..<length ch]"
    show "map chunk_index r' = map int [0..<length r']"
    proof (cases "s < len t")
      case False
      with body inv show ?thesis by simp
    next
      case True
      let ?cand = "py_slice t s (s + chunk_size c)"
      let ?ch' = "if py_strip ?cand \<noteq> [] then ch @ [fixed_chunk ?cand (len ch)] else ch"
      from body True have "f c t (s + chunk_size c - chunk_overlap c) ?ch' = Some r'"
        by (simp add: Let_def)
      moreover have "map chunk_index ?ch' = map int [0..<length ?ch']"
        using inv by (simp add: fixed_chunk_def len_def)
      ultimately show ?thesis using ih by blast
    qed
  qed
qed

lemma FixedSizeChunker_metadata:
  assumes "FixedSizeChunker_chunk cfg text = Some r"
  shows "map chunk_index r = map int [0..<length r]"
proof (cases "blank text")
  case True
  with assms show ?thesis by (simp add: FixedSizeChunker_chunk_def)
next
  case False
  with assms have "fixed_loop cfg text 0 [] = Some r"
    by (simp add: FixedSizeChunker_chunk_def)
  from fixed_loop_indices [OF this] show ?thesis by simp
qed

text \<open>
  C3. Every chunk is claimed to carry its position among the emitted chunks as index
  and the length of its text as \<open>chunk_size\<close>. The recursive strategy numbers the merged
  candidates before it drops the whitespace-only ones, and records the length of the
  candidate before stripping: with chunk size 5, overlap 1 and minimum size 1 the text
  \<open>ab\n\n\n  \n\n\ncd\<close> yields the chunks \<open>ab\<close> and \<open>cd\<close> with indices 0 and 2 and sizes
  5 and 6; with the default configuration the text \<open>hello \<close> yields the chunk \<open>hello\<close>
  with size 6.
\<close>

theorem RecursiveChunker_index_gap_and_size:
  "RecursiveChunker_chunk
     \<lparr>chunk_size = 5, chunk_overlap = 1, min_chunk_size = 1,
      separators = default_separators\<rparr>
     ''ab\<newline>\<newline>\<newline>  \<newline>\<newline>\<newline>cd''
   = [\<lparr>chunk_text = ''ab'', chunk_index = 0,
       chunk_metadata = [(''chunk_size'', PInt 5),
                         (''chunking_strategy'', PStr ''recursive'')]\<rparr>,
      \<lparr>chunk_text = ''cd'', chunk_index = 2,
       chunk_metadata = [(''chunk_size'', PInt 6),
                         (''chunking_strategy'', PStr ''recursive'')]\<rparr>] \<and>
   RecursiveChunker_chunk default_config ''hello ''
   = [\<lparr>chunk_text = ''hello'', chunk_index = 0,
       chunk_metadata = [(''chunk_size'', PInt 6),
                         (''chunking_strategy'', PStr ''recursive'')]\<rparr>]"
  by code_simp

subsection \<open>Characters of the chunks\<close>

text \<open>
  C4. The chunk texts are claimed to consist of characters of the input only. The
  splitting loop appends the separator to every piece, the last one included, and a
  piece that is still too long is split again with its appended separator: with chunk
  size 5, overlap 1 and minimum size 1 the text \<open>aaa bbb\<close> yields five chunks, among
  them \<open>bbb\n.\<close>, \<open>.\<close>, \<open>? !\<close> and \<open>; ,\<close>, whose punctuation and line break are
  separators of the configuration and occur nowhere in the input.
\<close>

theorem RecursiveChunker_invents_separators:
  "RecursiveChunker_chunk
     \<lparr>chunk_size = 5, chunk_overlap = 1, min_chunk_size = 1,
      separators = default_separators\<rparr>
     ''aaa bbb''
   = [\<lparr>chunk_text = ''aaa'', chunk_index = 0,
       chunk_metadata = [(''chunk_size'', PInt 4),
                         (''chunking_strategy'', PStr ''recursive'')]\<rparr>,
      \<lparr>chunk_text = ''bbb\<newline>.'', chunk_index = 1,
       chunk_metadata = [(''chunk_size'', PInt 6),
                         (''chunking_strategy'', PStr ''recursive'')]\<rparr>,
      \<lparr>chunk_text = ''.'', chunk_index = 2,
       chunk_metadata = [(''chunk_size'', PInt 2),
                         (''chunking_strategy'', PStr ''recursive'')]\<rparr>,
      \<lparr>chunk_text = ''? !'', chunk_index = 3,
       chunk_metadata = [(''chunk_size'', PInt 5),
                         (''chunking_strategy'', PStr ''recursive'')]\<rparr>,
      \<lparr>chunk_text = ''; ,'', chunk_index = 4,
       chunk_metadata = [(''chunk_size'', PInt 6),
                         (''chunking_strategy'', PStr ''recursive'')]\<rparr>]"
  by code_simp

lemma split_recursive_example:
  "split_recursive
     \<lparr>chunk_size = 5, chunk_overlap = 1, min_chunk_size = 1,
      separators = default_separators\<rparr>
     ''aaa bbb'' default_separators
   = [''aaa '', ''bbb\<newline>.'', '' '', ''? ! '', ''; ,  '', ''\<newline>\<newline>'',
      ''\<newline>\<newline>\<newline>'']"
  by code_simp

section \<open>PII masking (app/services/pii_masker.py)\<close>

subsection \<open>Regular expressions\<close>

text \<open>
  The fragment of Python's \<open>re\<close> syntax that the masker's patterns are written in: a
  character class, concatenation, alternation \<open>a|b\<close>, the greedy repetition
  \<open>c{lo,hi}\<close> of a character class (\<open>c+\<close>, \<open>c*\<close>, \<open>c?\<close>, \<open>c{n}\<close>), the greedy optional
  group \<open>(?:a)?\<close>, the word boundary \<open>\b\<close> and the empty pattern \<open>Empty\<close>.
\<close>

datatype regex =
    Cls "char \<Rightarrow> bool"
  | Seq regex regex
  | Alt regex regex
  | Rep "char \<Rightarrow> bool" nat "nat option"
  | Opt regex
  | WordB
  | Empty

text \<open>The classes \<open>\d\<close>, \<open>\w\<close> and \<open>\s\<close> of a \<open>str\<close> pattern, for the code points below
  256.\<close>

definition digit :: "char \<Rightarrow> bool" where
  "digit c = (48 \<le> (of_char c :: nat) \<and> (of_char c :: nat) \<le> 57)"

definition upper :: "char \<Rightarrow> bool" where
  "upper c = (65 \<le> (of_char c :: nat) \<and> (of_char c :: nat) \<le> 90)"

definition lower :: "char \<Rightarrow> bool" where
  "lower c = (97 \<le> (of_char c :: nat) \<and> (of_char c :: nat) \<le> 122)"

definition word_char :: "char \<Rightarrow> bool" where
  "word_char c =
     (let n = (of_char c :: nat)
      in digit c \<or> upper c \<or> lower c \<or> n = 95 \<or>
         n \<in> {170, 178, 179, 181, 185, 186, 188, 189, 190} \<or>
         (192 \<le> n \<and> n \<noteq> 215 \<and> n \<noteq> 247))"

text \<open>A range \<open>a-b\<close> of a class, and the same under \<open>re.IGNORECASE\<close>.\<close>

definition in_range :: "char \<Rightarrow> char \<Rightarrow> char \<Rightarrow> bool" where
  "in_range a b c = ((of_char a :: nat) \<le> of_char c \<and> (of_char c :: nat) \<le> of_char b)"

text \<open>The other case of an ASCII letter: the code point 32 above or below, which
  differs in one bit.\<close>

definition swap_case :: "char \<Rightarrow> char" where
  "swap_case c =
     (if upper c \<or> lower c
      then (case c of Char b0 b1 b2 b3 b4 b5 b6 b7 \<Rightarrow> Char b0 b1 b2 b3 b4 (\<not> b5) b6 b7)
      else c)"

definition ignore_case :: "(char \<Rightarrow> bool) \<Rightarrow> char \<Rightarrow> bool" where
  "ignore_case P c = (P c \<or> P (swap_case c))"

definition one_of :: "string \<Rightarrow> char \<Rightarrow> bool" where
  "one_of s c = (c \<in> set s)"

text \<open>
  A position in the subject is the character before it (if any) and the rest of the
  subject. \<open>rmatch r pos\<close> lists the positions at which a match of \<open>r\<close> starting at
  \<open>pos\<close> can end, in the order in which the backtracking matcher tries them.
\<close>

type_synonym pos = "char option \<times> string"

definition is_word :: "char option \<Rightarrow> bool" where
  "is_word p = (case p of None \<Rightarrow> False | Some c \<Rightarrow> word_char c)"

definition next_char :: "string \<Rightarrow> char option" where
  "next_char s = (case s of [] \<Rightarrow> None | c # cs \<Rightarrow> Some c)"

definition advance :: "pos \<Rightarrow> nat \<Rightarrow> pos" where
  "advance pos n =
     (case pos of (p, s) \<Rightarrow> (if n = 0 then p else Some (s ! (n - 1)), drop n s))"

fun rmatch :: "regex \<Rightarrow> pos \<Rightarrow> pos list" where
  "rmatch (Cls P) (p, s) =
     (case s of [] \<Rightarrow> [] | c # cs \<Rightarrow> if P c then [(Some c, cs)] else [])"
| "rmatch (Seq a b) pos = concat (map (rmatch b) (rmatch a pos))"
| "rmatch (Alt a b) pos = rmatch a pos @ rmatch b pos"
| "rmatch (Rep P lo hi) (p, s) =
     (let run = length (takeWhile P s);
          most = (case hi of None \<Rightarrow> run | Some h \<Rightarrow> min h run)
      in map (advance (p, s)) (rev [lo..<Suc most]))"
| "rmatch (Opt a) pos = rmatch a pos @ [pos]"
| "rmatch WordB (p, s) = (if is_word p \<noteq> is_word (next_char s) then [(p, s)] else [])"
| "rmatch Empty pos = [pos]"

text \<open>
  \<open>pattern.sub(repl, text)\<close>: the subject is read from the left; at a position where the
  pattern matches, the first match is replaced and reading goes on behind it. No
  pattern of the masker matches the empty string (\<open>patterns_consume\<close> below), so the
  case of an empty match, which the last branch writes as no match, does not arise.
\<close>

function re_sub :: "regex \<Rightarrow> string \<Rightarrow> char option \<Rightarrow> string \<Rightarrow> string" where
  "re_sub r repl p [] = []"
| "re_sub r repl p (c # cs) =
     (case rmatch r (p, c # cs) of
        [] \<Rightarrow> c # re_sub r repl (Some c) cs
      | (p', rest) # others \<Rightarrow>
          if length rest < length (c # cs) then repl @ re_sub r repl p' rest
          else c # re_sub r repl (Some c) cs)"
  by pat_completeness auto
termination
  by (relation "measure (\<lambda>(r, repl, p, s). length s)") auto

subsection \<open>The patterns\<close>

record PIIPattern =
  name :: string
  pattern :: regex
  replacement :: string

definition seq :: "regex list \<Rightarrow> regex" where
  "seq rs = foldr Seq rs Empty"

definition lit :: "char \<Rightarrow> regex" where
  "lit c = Cls (\<lambda>x. x = c)"

definition digits :: "nat \<Rightarrow> regex" where
  "digits n = Rep digit n (Some n)"

text \<open>\<open>\b[A-CEGHJ-PR-TW-Z][A-CEGHJ-NPR-TW-Z]\d{6}[A-D]\b\<close>, ignoring case\<close>

definition ni_number :: regex where
  "ni_number =
     seq [WordB,
          Cls (ignore_case (\<lambda>c. in_range CHR ''A'' CHR ''C'' c \<or> one_of ''EGH'' c \<or>
                 in_range CHR ''J'' CHR ''P'' c \<or> in_range CHR ''R'' CHR ''T'' c \<or>
                 in_range CHR ''W'' CHR ''Z'' c)),
          Cls (ignore_case (\<lambda>c. in_range CHR ''A'' CHR ''C'' c \<or> one_of ''EGH'' c \<or>
                 in_range CHR ''J'' CHR ''N'' c \<or> one_of ''P'' c \<or>
                 in_range CHR ''R'' CHR ''T'' c \<or> in_range CHR ''W'' CHR ''Z'' c)),
          digits 6,
          Cls (ignore_case (in_range CHR ''A'' CHR ''D'')),
          WordB]"

text \<open>\<open>\b(?:0[1-9]|[12]\d|3[01])[-/.](?:0[1-9]|1[0-2])[-/.](?:19|20)\d{2}\b\<close>\<close>

definition dob :: regex where
  "dob =
     seq [WordB,
          Alt (Seq (lit CHR ''0'') (Cls (in_range CHR ''1'' CHR ''9'')))
            (Alt (Seq (Cls (one_of ''12'')) (Cls digit))
                 (Seq (lit CHR ''3'') (Cls (one_of ''01'')))),
          Cls (one_of ''-/.''),
          Alt (Seq (lit CHR ''0'') (Cls (in_range CHR ''1'' CHR ''9'')))
              (Seq (lit CHR ''1'') (Cls (in_range CHR ''0'' CHR ''2''))),
          Cls (one_of ''-/.''),
          Alt (Seq (lit CHR ''1'') (lit CHR ''9'')) (Seq (lit CHR ''2'') (lit CHR ''0'')),
          digits 2,
          WordB]"

text \<open>\<open>(?:\+44\s?)?(?:0|\(0\))?\s?\<close>, the common head of the two phone patterns\<close>

definition phone_head :: "regex list" where
  "phone_head =
     [Opt (seq [lit CHR ''+'', lit CHR ''4'', lit CHR ''4'', Rep py_isspace 0 (Some 1)]),
      Opt (Alt (lit CHR ''0'') (seq [lit CHR ''('', lit CHR ''0'', lit CHR '')''])),
      Rep py_isspace 0 (Some 1)]"

definition sep_opt :: regex where
  "sep_opt = Rep (\<lambda>c. py_isspace c \<or> one_of ''.-'' c) 0 (Some 1)"

text \<open>\<open>...7\d{3}[\s.-]?\d{3}[\s.-]?\d{3}|...[1-2]\d{2,3}[\s.-]?\d{3}[\s.-]?\d{3,4}\<close>\<close>

definition phone_uk :: regex where
  "phone_uk =
     Alt (seq (phone_head @
            [lit CHR ''7'', digits 3, sep_opt, digits 3, sep_opt, digits 3]))
         (seq (phone_head @
            [Cls (in_range CHR ''1'' CHR ''2''), Rep digit 2 (Some 3), sep_opt, digits 3,
             sep_opt, Rep digit 3 (Some 4)]))"

text \<open>\<open>\b[A-Za-z0-9._%+-]+@[A-Za-z0-9.-]+\.[A-Z|a-z]{2,}\b\<close>\<close>

definition email :: regex where
  "email =
     seq [WordB,
          Rep (\<lambda>c. upper c \<or> lower c \<or> digit c \<or> one_of ''._%+-'' c) 1 None,
          lit CHR ''@'',
          Rep (\<lambda>c. upper c \<or> lower c \<or> digit c \<or> one_of ''.-'' c) 1 None,
          lit CHR ''.'',
          Rep (\<lambda>c. upper c \<or> c = CHR ''|'' \<or> lower c) 2 None,
          WordB]"

text \<open>\<open>\b[A-Z]{1,2}\d[A-Z\d]?\s*\d[A-Z]{2}\b\<close>, ignoring case\<close>

definition postcode :: regex where
  "postcode =
     seq [WordB,
          Rep (ignore_case upper) 1 (Some 2),
          Cls digit,
          Rep (\<lambda>c. ignore_case upper c \<or> digit c) 0 (Some 1),
          Rep py_isspace 0 None,
          Cls digit,
          Rep (ignore_case upper) 2 (Some 2),
          WordB]"

text \<open>\<open>\b\d{2}-\d{2}-\d{2}\b\<close>, \<open>\b\d{8}\b\<close> and \<open>\b\d{9}\b\<close>\<close>

definition sort_code :: regex where
  "sort_code = seq [WordB, digits 2, lit CHR ''-'', digits 2, lit CHR ''-'', digits 2, WordB]"

definition bank_account :: regex where
  "bank_account = seq [WordB, digits 8, WordB]"

definition passport :: regex where
  "passport = seq [WordB, digits 9, WordB]"

definition build_patterns :: "PIIPattern list" where
  "build_patterns =
     [\<lparr>name = ''NI_NUMBER'', pattern = ni_number, replacement = ''[NI_NUMBER]''\<rparr>,
      \<lparr>name = ''DOB'', pattern = dob, replacement = ''[DOB]''\<rparr>,
      \<lparr>name = ''PHONE_UK'', pattern = phone_uk, replacement = ''[PHONE]''\<rparr>,
      \<lparr>name = ''EMAIL'', pattern = email, replacement = ''[EMAIL]''\<rparr>,
      \<lparr>name = ''POSTCODE'', pattern = postcode, replacement = ''[POSTCODE]''\<rparr>,
      \<lparr>name = ''SORT_CODE'', pattern = sort_code, replacement = ''[SORT_CODE]''\<rparr>,
      \<lparr>name = ''BANK_ACCOUNT'', pattern = bank_account, replacement = ''[BANK_ACCOUNT]''\<rparr>,
      \<lparr>name = ''PASSPORT'', pattern = passport, replacement = ''[PASSPORT]''\<rparr>]"

text \<open>\<open>PIIMasker.mask\<close>: the patterns are applied one after the other, each to the text
  the earlier ones have masked.\<close>

fun mask_loop :: "PIIPattern list \<Rightarrow> string \<Rightarrow> string" where
  "mask_loop [] masked_text = masked_text"
| "mask_loop (pii_pattern # rest) masked_text =
     mask_loop rest (re_sub (pattern pii_pattern) (replacement pii_pattern) None masked_text)"

definition PIIMasker_mask :: "string \<Rightarrow> string" where
  "PIIMasker_mask text = (if text = [] then text else mask_loop build_patterns text)"


subsection \<open>Matches consume characters\<close>

fun min_len :: "regex \<Rightarrow> nat" where
  "min_len (Cls P) = 1"
| "min_len (Seq a b) = min_len a + min_len b"
| "min_len (Alt a b) = min (min_len a) (min_len b)"
| "min_len (Rep P lo hi) = lo"
| "min_len (Opt a) = 0"
| "min_len WordB = 0"
| "min_len Empty = 0"

lemma rmatch_min_len:
  "(p', rest) \<in> set (rmatch r (p, s)) \<Longrightarrow> length rest + min_len r \<le> length s"
proof (induction r arbitrary: p s p' rest)
  case (Cls P)
  then show ?case by (auto split: list.splits if_splits)
next
  case (Seq a b)
  from Seq.prems obtain q mid where
    a: "(q, mid) \<in> set (rmatch a (p, s))" and b: "(p', rest) \<in> set (rmatch b (q, mid))"
    by auto
  from Seq.IH(1) [OF a] Seq.IH(2) [OF b] show ?case by simp
next
  case (Alt a b)
  then show ?case by fastforce
next
  case (Rep P lo hi)
  let ?most = "case hi of None \<Rightarrow> length (takeWhile P s)
               | Some h \<Rightarrow> min h (length (takeWhile P s))"
  from Rep obtain n where n: "lo \<le> n" "n \<le> ?most" "rest = drop n s"
    by (auto simp: advance_def Let_def)
  have "?most \<le> length s"
    using length_takeWhile_le [of P s] by (auto split: option.splits)
  with n show ?case by simp
next
  case (Opt a)
  then show ?case by fastforce
next
  case WordB
  then show ?case by (auto split: if_splits)
next
  case Empty
  then show ?case by simp
qed

lemma rmatch_rest_subset:
  "(p', rest) \<in> set (rmatch r (p, s)) \<Longrightarrow> set rest \<subseteq> set s"
proof (induction r arbitrary: p s p' rest)
  case (Cls P)
  then show ?case by (auto split: list.splits if_splits)
next
  case (Seq a b)
  from Seq.prems obtain q mid where
    a: "(q, mid) \<in> set (rmatch a (p, s))" and b: "(p', rest) \<in> set (rmatch b (q, mid))"
    by auto
  from Seq.IH(1) [OF a] Seq.IH(2) [OF b] show ?case by blast
next
  case (Alt a b)
  then show ?case by fastforce
next
  case (Rep P lo hi)
  then show ?case by (auto simp: advance_def Let_def dest: in_set_dropD)
next
  case (Opt a)
  then show ?case by fastforce
next
  case WordB
  then show ?case by (auto split: if_splits)
next
  case Empty
  then show ?case by simp
qed

subsection \<open>Patterns that need a character of a given kind\<close>

text \<open>\<open>needs D r\<close>: by the shape of \<open>r\<close>, every match of \<open>r\<close> holds a character of the
  kind \<open>D\<close>.\<close>

fun needs :: "(char \<Rightarrow> bool) \<Rightarrow> regex \<Rightarrow> bool" where
  "needs D (Cls P) = (\<forall>c. P c \<longrightarrow> D c)"
| "needs D (Seq a b) = (needs D a \<or> needs D b)"
| "needs D (Alt a b) = (needs D a \<and> needs D b)"
| "needs D (Rep P lo hi) = (0 < lo \<and> (\<forall>c. P c \<longrightarrow> D c))"
| "needs D (Opt a) = False"
| "needs D WordB = False"
| "needs D Empty = False"

lemma rmatch_needs:
  "needs D r \<Longrightarrow> \<forall>c \<in> set s. \<not> D c \<Longrightarrow> rmatch r (p, s) = []"
proof (induction r arbitrary: p s)
  case (Cls P)
  then show ?case by (auto split: list.splits)
next
  case (Seq a b)
  show ?case
  proof (cases "needs D a")
    case True
    with Seq show ?thesis by simp
  next
    case False
    with Seq.prems have nb: "needs D b" by simp
    have "rmatch b pos = []" if "pos \<in> set (rmatch a (p, s))" for pos
    proof -
      obtain q mid where pos: "pos = (q, mid)" by (cases pos)
      with that rmatch_rest_subset have "set mid \<subseteq> set s" by blast
      with Seq.prems(2) have "\<forall>c \<in> set mid. \<not> D c" by blast
      with Seq.IH(2) [OF nb] pos show ?thesis by simp
    qed
    then show ?thesis by simp
  qed
next
  case (Alt a b)
  then show ?case by simp
next
  case (Rep P lo hi)
  then have "takeWhile P s = []" by (cases s) auto
  with Rep show ?case by (auto simp: Let_def split: option.splits)
qed simp_all

lemma re_sub_no_match:
  "needs D r \<Longrightarrow> \<forall>c \<in> set s. \<not> D c \<Longrightarrow> re_sub r repl p s = s"
proof (induction s arbitrary: p)
  case Nil
  then show ?case by simp
next
  case (Cons c cs)
  from Cons.prems have "rmatch r (p, c # cs) = []" by (rule rmatch_needs)
  with Cons show ?case by simp
qed

text \<open>The kind of character that every pattern of the masker needs: a digit or \<open>@\<close>.\<close>

definition trigger :: "char \<Rightarrow> bool" where
  "trigger c = (digit c \<or> c = CHR ''@'')"

lemma needs_seqI: "r \<in> set rs \<Longrightarrow> needs D r \<Longrightarrow> needs D (seq rs)"
  by (induction rs) (auto simp: seq_def)

lemma needs_mono: "needs D r \<Longrightarrow> (\<And>c. D c \<Longrightarrow> D' c) \<Longrightarrow> needs D' r"
  by (induction r) auto

lemma needs_digits: "0 < n \<Longrightarrow> needs digit (digits n)"
  by (simp add: digits_def)

lemma needs_ni_number: "needs digit ni_number"
  unfolding ni_number_def
  by (rule needs_seqI [where r = "digits 6"]) (simp_all add: needs_digits)

lemma needs_dob: "needs digit dob"
  unfolding dob_def
  by (rule needs_seqI [where r = "digits 2"]) (simp_all add: needs_digits)

lemma needs_phone_uk: "needs digit phone_uk"
proof -
  have "needs digit (seq (phone_head @ rs))" if "digits 3 \<in> set rs" for rs
    using that by (intro needs_seqI [where r = "digits 3"]) (simp_all add: needs_digits)
  then show ?thesis by (simp add: phone_uk_def)
qed

lemma needs_email: "needs (\<lambda>c. c = CHR ''@'') email"
  unfolding email_def
  by (rule needs_seqI [where r = "lit CHR ''@''"]) (simp_all add: lit_def)

lemma needs_postcode: "needs digit postcode"
  unfolding postcode_def
  by (rule needs_seqI [where r = "Cls digit"]) simp_all

lemma needs_sort_code: "needs digit sort_code"
  unfolding sort_code_def
  by (rule needs_seqI [where r = "digits 2"]) (simp_all add: needs_digits)

lemma needs_bank_account: "needs digit bank_account"
  unfolding bank_account_def
  by (rule needs_seqI [where r = "digits 8"]) (simp_all add: needs_digits)

lemma needs_passport: "needs digit passport"
  unfolding passport_def
  by (rule needs_seqI [where r = "digits 9"]) (simp_all add: needs_digits)

lemma patterns_need_trigger:
  "list_all (\<lambda>pp. needs trigger (pattern pp)) build_patterns"
proof -
  have d: "needs trigger r" if "needs digit r" for r
    using that by (rule needs_mono) (simp add: trigger_def)
  have "needs trigger email"
    using needs_email by (rule needs_mono) (simp add: trigger_def)
  then show ?thesis
    by (simp add: build_patterns_def d needs_ni_number needs_dob needs_phone_uk
        needs_postcode needs_sort_code needs_bank_account needs_passport)
qed

lemma min_len_seq: "min_len (seq rs) = sum_list (map min_len rs)"
  by (induction rs) (simp_all add: seq_def)

lemma patterns_consume:
  "list_all (\<lambda>pp. 0 < min_len (pattern pp)) build_patterns"
  by (simp add: build_patterns_def ni_number_def dob_def phone_uk_def email_def
      postcode_def sort_code_def bank_account_def passport_def min_len_seq digits_def
      lit_def)

lemma mask_loop_no_trigger:
  "list_all (\<lambda>pp. needs trigger (pattern pp)) pats \<Longrightarrow> \<forall>c \<in> set s. \<not> trigger c \<Longrightarrow>
   mask_loop pats s = s"
  by (induction pats) (simp_all add: re_sub_no_match [where D = trigger])

subsection \<open>Masked text\<close>

definition placeholders :: "string list" where
  "placeholders = map replacement build_patterns"

text \<open>A token of an already masked text: one of the placeholders, or a run of
  whitespace.\<close>

definition masked_token :: "string \<Rightarrow> bool" where
  "masked_token t = (t \<in> set placeholders \<or> list_all py_isspace t)"

lemma placeholders_eq:
  "placeholders = [''[NI_NUMBER]'', ''[DOB]'', ''[PHONE]'', ''[EMAIL]'', ''[POSTCODE]'',
     ''[SORT_CODE]'', ''[BANK_ACCOUNT]'', ''[PASSPORT]'']"
  by (simp add: placeholders_def build_patterns_def)

lemma space_no_trigger: "py_isspace c \<Longrightarrow> \<not> trigger c"
  by (auto simp: py_isspace_def trigger_def digit_def)

lemma masked_token_no_trigger:
  assumes "masked_token t" and "c \<in> set t"
  shows "\<not> trigger c"
proof (cases "t \<in> set placeholders")
  case True
  with assms(2) show ?thesis
    unfolding placeholders_eq by (auto simp: trigger_def digit_def)
next
  case False
  with assms have "py_isspace c" by (auto simp: masked_token_def list_all_iff)
  then show ?thesis by (rule space_no_trigger)
qed

text \<open>
  C9. Masking leaves already masked text as it is: for every text that is a sequence of
  the masker's placeholders (\<open>[NI_NUMBER]\<close>, \<open>[DOB]\<close>, \<open>[PHONE]\<close>, \<open>[EMAIL]\<close>,
  \<open>[POSTCODE]\<close>, \<open>[SORT_CODE]\<close>, \<open>[BANK_ACCOUNT]\<close>, \<open>[PASSPORT]\<close>) and
  whitespace, \<open>mask\<close> returns the text unchanged.
\<close>

theorem mask_idempotent_on_masked_text:
  "list_all masked_token tokens \<Longrightarrow> PIIMasker_mask (concat tokens) = concat tokens"
proof -
  assume a: "list_all masked_token tokens"
  have "\<forall>c \<in> set (concat tokens). \<not> trigger c"
    using a masked_token_no_trigger by (auto simp: list_all_iff)
  with patterns_need_trigger show ?thesis
    by (simp add: PIIMasker_mask_def mask_loop_no_trigger)
qed

text \<open>The masking of the end-to-end example of the specification: the first pattern
  masks the national insurance number, the fourth the address; the text holds no digit
  after the first step, so the other six patterns find nothing.\<close>

lemmas regex_eval =
  ni_number_def email_def seq_def digits_def lit_def is_word_def next_char_def
  advance_def word_char_def digit_def upper_def lower_def in_range_def ignore_case_def
  swap_case_def one_of_def Let_def

lemma mask_example:
  "PIIMasker_mask ''Employee NI: AB123456C, Email: john@test.com''
   = ''Employee NI: [NI_NUMBER], Email: [EMAIL]''"
proof -
  have ni: "re_sub ni_number ''[NI_NUMBER]'' None
      ''Employee NI: AB123456C, Email: john@test.com''
    = ''Employee NI: [NI_NUMBER], Email: john@test.com''"
    by (simp add: regex_eval)
  have em: "re_sub email ''[EMAIL]'' None ''Employee NI: [NI_NUMBER], Email: john@test.com''
    = ''Employee NI: [NI_NUMBER], Email: [EMAIL]''"
    by (simp add: regex_eval)
  have d1: "\<forall>c \<in> set ''Employee NI: [NI_NUMBER], Email: john@test.com''. \<not> digit c"
    by (simp add: digit_def)
  have d2: "\<forall>c \<in> set ''Employee NI: [NI_NUMBER], Email: [EMAIL]''. \<not> digit c"
    by (simp add: digit_def)
  note skip1 = re_sub_no_match [where D = digit, OF _ d1]
  note skip2 = re_sub_no_match [where D = digit, OF _ d2]
  have "mask_loop build_patterns ''Employee NI: AB123456C, Email: john@test.com''
    = ''Employee NI: [NI_NUMBER], Email: [EMAIL]''"
    by (simp only: build_patterns_def mask_loop.simps PIIPattern.select_convs ni em
        skip1 [OF needs_dob] skip1 [OF needs_phone_uk] skip2 [OF needs_postcode]
        skip2 [OF needs_sort_code] skip2 [OF needs_bank_account] skip2 [OF needs_passport])
  then show ?thesis
    by (simp add: PIIMasker_mask_def)
qed

theorem mask_idempotent_on_masked_text_witness:
  "list_all masked_token [''[NI_NUMBER]'', '' '', ''[DOB]'', ''\<newline>'', ''[PHONE]'',
     ''[EMAIL]'', ''  '', ''[POSTCODE]'', ''[SORT_CODE]'', ''[BANK_ACCOUNT]'', '' '',
     ''[PASSPORT]''] \<and>
   PIIMasker_mask ''[NI_NUMBER] [DOB]\<newline>[PHONE][EMAIL]  [POSTCODE][SORT_CODE][BANK_ACCOUNT] [PASSPORT]''
     = ''[NI_NUMBER] [DOB]\<newline>[PHONE][EMAIL]  [POSTCODE][SORT_CODE][BANK_ACCOUNT] [PASSPORT]''"
proof -
  have t: "list_all masked_token [''[NI_NUMBER]'', '' '', ''[DOB]'', ''\<newline>'', ''[PHONE]'',
     ''[EMAIL]'', ''  '', ''[POSTCODE]'', ''[SORT_CODE]'', ''[BANK_ACCOUNT]'', '' '',
     ''[PASSPORT]'']"
    by (simp add: masked_token_def placeholders_eq py_isspace_def)
  from mask_idempotent_on_masked_text [OF t] t show ?thesis by simp
qed

end
